theory Spec2Isabelle
  imports Main "HOL-Library.Word"
begin

section \<open>Password encoders of the mcf framework: the argon2 and pbkdf2 plugins\<close>

text \<open>
  The source holds two plugin packages, \<^verbatim>\<open>argon2\<close> and \<^verbatim>\<open>pbkdf2\<close>, each with a
  \<^verbatim>\<open>Config\<close> struct and the methods \<^verbatim>\<open>Params\<close>, \<^verbatim>\<open>SetParams\<close>, \<^verbatim>\<open>Key\<close>,
  \<^verbatim>\<open>AtLeast\<close>, \<^verbatim>\<open>validate\<close> and the package functions \<^verbatim>\<open>GetConfig\<close>,
  \<^verbatim>\<open>SetConfig\<close>, \<^verbatim>\<open>register\<close>. Both packages live in one theory here, so every name
  carries its package as a prefix. A method with a pointer receiver that mutates it
  returns the receiver as it leaves it; a function that registers takes the registry and
  returns it. \<^verbatim>\<open>Salt\<close> and the package initialisers are left out: no property below
  depends on them.
\<close>

subsection \<open>Go values\<close>

text \<open>
  Go's \<^verbatim>\<open>int\<close> is taken at its width on 64-bit platforms and read as two's complement
  (\<^term>\<open>sint\<close>); \<^verbatim>\<open>uint32\<close> is a 32-bit word read unsigned. Byte slices and strings are
  lists of 8-bit characters.
\<close>

type_synonym go_int = "64 word"
type_synonym uint32 = "32 word"
type_synonym bytes = string

subsection \<open>Configurations\<close>

record argon2_Config =
  argon2_KeyLen :: go_int
  argon2_SaltLen :: go_int
  argon2_Iterations :: uint32
  argon2_Memory :: uint32
  argon2_Parallelism :: uint32

text \<open>\<^verbatim>\<open>type Hash string\<close>, with \<^verbatim>\<open>String()\<close> the identity.\<close>

type_synonym Hash = string

record pbkdf2_Config =
  pbkdf2_Hash :: Hash
  pbkdf2_Iterations :: go_int
  pbkdf2_KeyLen :: go_int
  pbkdf2_SaltLen :: go_int

text \<open>
  The standard library's \<^verbatim>\<open>crypto.Hash\<close> identifiers that the table \<^verbatim>\<open>hashes\<close> maps to;
  \<open>crypto_Hash_zero\<close> is the zero value that a lookup of a missing key yields.
\<close>

datatype crypto_Hash =
  crypto_Hash_zero | crypto_SHA1 | crypto_SHA224 | crypto_SHA256 | crypto_SHA384 | crypto_SHA512

definition SHA1 :: Hash where "SHA1 = ''SHA1''"
definition SHA224 :: Hash where "SHA224 = ''SHA224''"
definition SHA256 :: Hash where "SHA256 = ''SHA256''"
definition SHA384 :: Hash where "SHA384 = ''SHA384''"
definition SHA512 :: Hash where "SHA512 = ''SHA512''"

definition hashes :: "Hash \<rightharpoonup> crypto_Hash" where
  "hashes = [SHA1 \<mapsto> crypto_SHA1, SHA224 \<mapsto> crypto_SHA224, SHA256 \<mapsto> crypto_SHA256,
             SHA384 \<mapsto> crypto_SHA384, SHA512 \<mapsto> crypto_SHA512]"

subsection \<open>Errors and panics\<close>

text \<open>
  Errors are values. \<open>ErrInvalidParameter\<close> is the struct the argon2 package declares
  (\<^verbatim>\<open>Name\<close>, \<^verbatim>\<open>Value\<close>); \<open>ErrInvalidHash\<close> is pbkdf2's string error; \<open>KeyError\<close> carries
  the message of an error handed back by the external \<^verbatim>\<open>argon2.Key\<close>; \<open>ScanError\<close> wraps
  what \<^verbatim>\<open>fmt.Sscanf\<close> reports.
\<close>

datatype scanError =
    ErrUnexpectedEOF
  | InputDoesNotMatchFormat
  | UnexpectedNewline
  | ExpectedInteger
  | ErrSyntax string
  | ErrRange string
  | UnsignedIntegerOverflow string
  | BadVerb char
  | TooFewOperands
  | FormatNotModelled

datatype error =
    ErrInvalidParameter string go_int
  | ErrInvalidHash string
  | KeyError string
  | ScanError scanError

datatype panic =
    PanicTypeAssertion
  | PanicNilDereference
  | PanicUnknownHash string

subsection \<open>The Implementer interface\<close>

text \<open>
  A value of the interface type \<^verbatim>\<open>bridge.Implementer\<close> is nil, or a pointer to one of the
  two \<^verbatim>\<open>Config\<close> types (the pointer may itself be nil), or a value of some other
  concrete type, identified by its type name.
\<close>

datatype Implementer =
    NilImplementer
  | Argon2Ptr "argon2_Config option"
  | Pbkdf2Ptr "pbkdf2_Config option"
  | OtherImplementer string

section \<open>The fragment of Go's fmt and strconv that the plugins use\<close>

text \<open>
  \<^verbatim>\<open>Params\<close> calls \<^verbatim>\<open>fmt.Sprintf\<close> and \<^verbatim>\<open>SetParams\<close> calls \<^verbatim>\<open>fmt.Sscanf\<close>, both on a
  constant format made of literal text and the verbs \<^verbatim>\<open>%d\<close> and \<^verbatim>\<open>%s\<close>, without
  flags, widths or spaces. The standard library is modelled on that fragment, after its
  source (\<^verbatim>\<open>fmt/scan.go\<close>, \<^verbatim>\<open>strconv/itoa.go\<close>, \<^verbatim>\<open>strconv/atoi.go\<close>); a format
  that leaves the fragment yields \<open>FormatNotModelled\<close> when scanning and no text when
  printing. Input is read as 8-bit characters, so the space characters are the ASCII
  ones, and is taken to be shorter than the scanner's default width limit of \<open>2 ^ 30\<close>
  characters for one operand.
\<close>

subsection \<open>Decimal text (strconv)\<close>

text \<open>
  \<^verbatim>\<open>strconv.FormatUint\<close> and \<^verbatim>\<open>FormatInt\<close> in base 10, which \<^verbatim>\<open>%d\<close> prints: the digits are
  written from the right into a buffer while the number is divided by ten, and a negative
  number is the sign followed by its magnitude.
\<close>

definition decimalDigits :: string where
  "decimalDigits = ''0123456789''"

definition digitChar :: "nat \<Rightarrow> char" where
  "digitChar d = decimalDigits ! d"

function formatBits :: "nat \<Rightarrow> string \<Rightarrow> string" where
  "formatBits u a =
     (if 10 \<le> u then formatBits (u div 10) (digitChar (u mod 10) # a) else digitChar u # a)"
  by pat_completeness auto
termination
  by (relation "measure fst") auto

declare formatBits.simps [simp del]

definition FormatUint :: "nat \<Rightarrow> string" where
  "FormatUint u = formatBits u []"

definition FormatInt :: "int \<Rightarrow> string" where
  "FormatInt i = (if i < 0 then CHR ''-'' # FormatUint (nat (- i)) else FormatUint (nat i))"

definition isDigit :: "char \<Rightarrow> bool" where
  "isDigit r = (r \<in> set decimalDigits)"

definition digitVal :: "char \<Rightarrow> nat" where
  "digitVal r = of_char r - 48"

definition digitsVal :: "string \<Rightarrow> nat" where
  "digitsVal tok = foldl (\<lambda>n r. n * 10 + digitVal r) 0 tok"

text \<open>Where a run of digits stops: at the end of the text, or before a character that is
  no digit.\<close>

definition endsNumber :: "string \<Rightarrow> bool" where
  "endsNumber rest = (case rest of [] \<Rightarrow> True | r # rs \<Rightarrow> \<not> isDigit r)"

text \<open>
  \<^verbatim>\<open>strconv.ParseUint(tok, 10, 64)\<close> and \<^verbatim>\<open>strconv.ParseInt(tok, 10, 64)\<close>: a syntax
  error unless the text is a non-empty run of decimal digits (after one optional sign,
  for \<^verbatim>\<open>ParseInt\<close>), a range error when the value does not fit 64 bits.
\<close>

definition ParseUint :: "string \<Rightarrow> scanError + nat" where
  "ParseUint tok =
     (if tok \<noteq> [] \<and> list_all isDigit tok then
        (let un = digitsVal tok in if un < 2 ^ 64 then Inr un else Inl (ErrRange tok))
      else Inl (ErrSyntax tok))"

definition ParseInt :: "string \<Rightarrow> scanError + int" where
  "ParseInt tok =
     (case tok of
        [] \<Rightarrow> Inl (ErrSyntax tok)
      | r # rs \<Rightarrow>
          let neg = (r = CHR ''-'');
              s = (if r = CHR ''+'' \<or> r = CHR ''-'' then rs else tok)
          in if s \<noteq> [] \<and> list_all isDigit s then
               (let un = digitsVal s
                in if \<not> neg \<and> 2 ^ 63 \<le> un then Inl (ErrRange tok)
                   else if neg \<and> 2 ^ 63 < un then Inl (ErrRange tok)
                   else Inr (if neg then - int un else int un))
             else Inl (ErrSyntax tok))"

subsection \<open>Scanning (fmt.Sscanf)\<close>

text \<open>
  The scanner state is the input still unread. \<^verbatim>\<open>SkipSpace\<close> drops spaces; \<^verbatim>\<open>Sscanf\<close>
  does not count a newline as space, so a newline met there is an error.
\<close>

definition isSpace :: "char \<Rightarrow> bool" where
  "isSpace r = (r \<in> set [CHR 0x09, CHR 0x0A, CHR 0x0B, CHR 0x0C, CHR 0x0D, CHR 0x20])"

fun SkipSpace :: "string \<Rightarrow> scanError + string" where
  "SkipSpace [] = Inr []"
| "SkipSpace (r # rs) =
     (if r = CHR 0x0D \<and> (case rs of [] \<Rightarrow> False | n # ns \<Rightarrow> n = CHR 0x0A) then SkipSpace rs
      else if r = CHR 0x0A then Inl UnexpectedNewline
      else if \<not> isSpace r then Inr (r # rs)
      else SkipSpace rs)"

text \<open>
  \<^verbatim>\<open>scanNumber\<close> wants one digit at least and takes all that follow. \<^verbatim>\<open>scanInt\<close>
  (operand \<^verbatim>\<open>*int\<close>) accepts one sign before the digits and converts the token with
  \<^verbatim>\<open>ParseInt\<close>; \<^verbatim>\<open>scanUint\<close> at 32 bits (operand \<^verbatim>\<open>*uint32\<close>) accepts no sign, converts
  with \<^verbatim>\<open>ParseUint\<close> and reports a value of 33 bits or more as an overflow.
  \<^verbatim>\<open>convertString\<close> (operand of string kind, here \<^verbatim>\<open>*Hash\<close>) takes the characters up to
  the next space. Each returns the value with the input left over.
\<close>

definition scanNumber :: "string \<Rightarrow> scanError + (string \<times> string)" where
  "scanNumber inp =
     (case inp of
        [] \<Rightarrow> Inl ErrUnexpectedEOF
      | r # rs \<Rightarrow>
          if isDigit r then Inr (takeWhile isDigit inp, dropWhile isDigit inp)
          else Inl ExpectedInteger)"

definition scanInt :: "char \<Rightarrow> string \<Rightarrow> scanError + (go_int \<times> string)" where
  "scanInt verb inp =
     (case SkipSpace inp of
        Inl e \<Rightarrow> Inl e
      | Inr inp1 \<Rightarrow>
          (case inp1 of
             [] \<Rightarrow> Inl ErrUnexpectedEOF
           | r # rs \<Rightarrow>
               if verb \<noteq> CHR ''d'' then
                 Inl (if verb \<in> set ''bcoUxXv'' then FormatNotModelled else BadVerb verb)
               else
                 let signed = (r = CHR ''+'' \<or> r = CHR ''-'') in
                 (case scanNumber (if signed then rs else inp1) of
                    Inl e \<Rightarrow> Inl e
                  | Inr (tok, rest) \<Rightarrow>
                      (case ParseInt (if signed then r # tok else tok) of
                         Inl e \<Rightarrow> Inl e
                       | Inr i \<Rightarrow> Inr (word_of_int i, rest)))))"

definition scanUint32 :: "char \<Rightarrow> string \<Rightarrow> scanError + (uint32 \<times> string)" where
  "scanUint32 verb inp =
     (case SkipSpace inp of
        Inl e \<Rightarrow> Inl e
      | Inr inp1 \<Rightarrow>
          (case inp1 of
             [] \<Rightarrow> Inl ErrUnexpectedEOF
           | r # rs \<Rightarrow>
               if verb \<noteq> CHR ''d'' then
                 Inl (if verb \<in> set ''bcoUxXv'' then FormatNotModelled else BadVerb verb)
               else
                 (case scanNumber inp1 of
                    Inl e \<Rightarrow> Inl e
                  | Inr (tok, rest) \<Rightarrow>
                      (case ParseUint tok of
                         Inl e \<Rightarrow> Inl e
                       | Inr un \<Rightarrow>
                           if un < 2 ^ 32 then Inr (of_nat un, rest)
                           else Inl (UnsignedIntegerOverflow tok)))))"

definition convertString :: "char \<Rightarrow> string \<Rightarrow> scanError + (string \<times> string)" where
  "convertString verb inp =
     (if verb \<notin> set ''svqxX'' then Inl (BadVerb verb)
      else
        (case SkipSpace inp of
           Inl e \<Rightarrow> Inl e
         | Inr inp1 \<Rightarrow>
             (case inp1 of
                [] \<Rightarrow> Inl ErrUnexpectedEOF
              | r # rs \<Rightarrow>
                  if verb = CHR ''s'' \<or> verb = CHR ''v'' then
                    Inr (takeWhile (\<lambda>r. \<not> isSpace r) inp1, dropWhile (\<lambda>r. \<not> isSpace r) inp1)
                  else Inl FormatNotModelled)))"

text \<open>
  An operand of \<^verbatim>\<open>Sscanf\<close> is a pointer; what the scanner does with it is store a value
  through it. A pointer into a structure of type \<open>'c\<close> is therefore the store it
  performs, by the type of the value pointed to. \<^verbatim>\<open>doScanf\<close> walks the format: a literal
  character must be the next input character; a verb skips space and scans one operand,
  storing it at once, so that operands scanned before an error stay stored. Input left
  after the format is exhausted is ignored.
\<close>

datatype 'c operand_ptr =
    IntPtr "go_int \<Rightarrow> 'c \<Rightarrow> 'c"
  | Uint32Ptr "uint32 \<Rightarrow> 'c \<Rightarrow> 'c"
  | StringPtr "string \<Rightarrow> 'c \<Rightarrow> 'c"

fun scanOne :: "char \<Rightarrow> 'c operand_ptr \<Rightarrow> string \<Rightarrow> 'c \<Rightarrow> scanError + ('c \<times> string)" where
  "scanOne verb (IntPtr store) inp c =
     (case scanInt verb inp of Inl e \<Rightarrow> Inl e | Inr (v, rest) \<Rightarrow> Inr (store v c, rest))"
| "scanOne verb (Uint32Ptr store) inp c =
     (case scanUint32 verb inp of Inl e \<Rightarrow> Inl e | Inr (v, rest) \<Rightarrow> Inr (store v c, rest))"
| "scanOne verb (StringPtr store) inp c =
     (case convertString verb inp of Inl e \<Rightarrow> Inl e | Inr (v, rest) \<Rightarrow> Inr (store v c, rest))"

fun doScanf :: "string \<Rightarrow> 'c operand_ptr list \<Rightarrow> string \<Rightarrow> 'c \<Rightarrow> 'c \<times> scanError option" where
  "doScanf [] a inp c = (c, None)"
| "doScanf (fmtc # fmt) a inp c =
     (if isSpace fmtc then (c, Some FormatNotModelled)
      else if fmtc = CHR ''%'' then
        (case fmt of
           [] \<Rightarrow> (c, Some FormatNotModelled)
         | verb # fmt' \<Rightarrow>
             if verb \<notin> set ''ds'' then (c, Some FormatNotModelled)
             else
               (case SkipSpace inp of
                  Inl e \<Rightarrow> (c, Some e)
                | Inr inp1 \<Rightarrow>
                    (case a of
                       [] \<Rightarrow> (c, Some TooFewOperands)
                     | arg # a' \<Rightarrow>
                         (case scanOne verb arg inp1 c of
                            Inl e \<Rightarrow> (c, Some e)
                          | Inr (c', inp2) \<Rightarrow> doScanf fmt' a' inp2 c'))))
      else
        (case inp of
           [] \<Rightarrow> (c, Some ErrUnexpectedEOF)
         | inputc # inp' \<Rightarrow>
             if fmtc = inputc then doScanf fmt a inp' c
             else (c, Some InputDoesNotMatchFormat)))"

definition Sscanf :: "string \<Rightarrow> string \<Rightarrow> 'c operand_ptr list \<Rightarrow> 'c \<Rightarrow> 'c \<times> scanError option" where
  "Sscanf str format a c = doScanf format a str c"

text \<open>
  The formats that stay inside the modelled fragment: no space character, and every
  \<^verbatim>\<open>%\<close> followed by \<^verbatim>\<open>d\<close> or \<^verbatim>\<open>s\<close>.
\<close>

fun modelledFormat :: "string \<Rightarrow> bool" where
  "modelledFormat [] = True"
| "modelledFormat (fmtc # fmt) =
     (if isSpace fmtc then False
      else if fmtc = CHR ''%'' then
        (case fmt of [] \<Rightarrow> False | verb # fmt' \<Rightarrow> verb \<in> set ''ds'' \<and> modelledFormat fmt')
      else modelledFormat fmt)"

subsection \<open>Printing (fmt.Sprintf)\<close>

text \<open>
  An operand of \<^verbatim>\<open>Sprintf\<close> is a value: an \<^verbatim>\<open>int\<close>, a \<^verbatim>\<open>uint32\<close>, or a string (a
  \<^verbatim>\<open>Hash\<close> prints through its \<^verbatim>\<open>String\<close> method, which is the identity). \<open>doPrintf\<close>
  is \<open>None\<close> outside the fragment, where Go would print an error marker, and \<open>Sprintf\<close>
  is then empty; \<open>argon2_Params_text\<close> and \<open>pbkdf2_Params_text\<close> below give the text the two
  plugins print, so that case does not arise for them.
\<close>

datatype operand = IntArg go_int | Uint32Arg uint32 | StringArg string

fun printArg :: "char \<Rightarrow> operand \<Rightarrow> string option" where
  "printArg verb (IntArg i) = (if verb = CHR ''d'' then Some (FormatInt (sint i)) else None)"
| "printArg verb (Uint32Arg u) = (if verb = CHR ''d'' then Some (FormatUint (unat u)) else None)"
| "printArg verb (StringArg s) = (if verb = CHR ''s'' then Some s else None)"

fun doPrintf :: "string \<Rightarrow> operand list \<Rightarrow> string option" where
  "doPrintf [] a = (if a = [] then Some [] else None)"
| "doPrintf (fmtc # fmt) a =
     (if fmtc \<noteq> CHR ''%'' then map_option ((#) fmtc) (doPrintf fmt a)
      else
        (case fmt of
           [] \<Rightarrow> None
         | verb # fmt' \<Rightarrow>
             (case a of
                [] \<Rightarrow> None
              | arg # a' \<Rightarrow>
                  (case printArg verb arg of
                     None \<Rightarrow> None
                   | Some t \<Rightarrow> map_option ((@) t) (doPrintf fmt' a')))))"

definition Sprintf :: "string \<Rightarrow> operand list \<Rightarrow> string" where
  "Sprintf format a = (case doPrintf format a of Some s \<Rightarrow> s | None \<Rightarrow> [])"

section \<open>The plugins\<close>

subsection \<open>The argon2 plugin\<close>

definition argon2_DefaultKeyLen :: go_int where "argon2_DefaultKeyLen = 32"
definition argon2_DefaultSaltLen :: go_int where "argon2_DefaultSaltLen = 16"
definition argon2_DefaultIterations :: uint32 where "argon2_DefaultIterations = 8"
definition argon2_DefaultMemory :: uint32 where "argon2_DefaultMemory = 1024"
definition argon2_DefaultParallelism :: uint32 where "argon2_DefaultParallelism = 4"

definition argon2_GetConfig :: argon2_Config where
  "argon2_GetConfig =
     \<lparr>argon2_KeyLen = argon2_DefaultKeyLen,
      argon2_SaltLen = argon2_DefaultSaltLen,
      argon2_Iterations = argon2_DefaultIterations,
      argon2_Memory = argon2_DefaultMemory,
      argon2_Parallelism = argon2_DefaultParallelism\<rparr>"

text \<open>
  The key derivation itself, \<^verbatim>\<open>argon2.Key\<close> of the library \<^verbatim>\<open>github.com/pzduniak/argon2\<close>,
  is outside the repository. It is a parameter \<open>K\<close> of everything that calls it: a
  function of password, salt, iterations, parallelism, memory, key length and variant
  that returns the digest or an error message.
\<close>

datatype argon2_variant = Argon2d | Argon2i

type_synonym argon2_kdf =
  "bytes \<Rightarrow> bytes \<Rightarrow> uint32 \<Rightarrow> uint32 \<Rightarrow> uint32 \<Rightarrow> go_int \<Rightarrow> argon2_variant \<Rightarrow> string + bytes"

definition argon2_Key :: "argon2_kdf \<Rightarrow> argon2_Config \<Rightarrow> bytes \<Rightarrow> bytes \<Rightarrow> error + bytes" where
  "argon2_Key K c plaintext salt =
     (case K plaintext salt (argon2_Iterations c) (argon2_Parallelism c) (argon2_Memory c)
             (argon2_KeyLen c) Argon2i of
        Inl msg \<Rightarrow> Inl (KeyError msg)
      | Inr b \<Rightarrow> Inr b)"

definition argon2_validate :: "argon2_kdf \<Rightarrow> argon2_Config \<Rightarrow> error option" where
  "argon2_validate K c =
     (case argon2_Key K c ''password'' ''salt'' of Inl err \<Rightarrow> Some err | Inr b \<Rightarrow> None)"

fun argon2_AtLeast :: "argon2_Config \<Rightarrow> Implementer \<Rightarrow> panic + bool" where
  "argon2_AtLeast c (Argon2Ptr (Some current)) =
     Inr (\<not> (argon2_Iterations c < argon2_Iterations current
            \<or> argon2_Memory c < argon2_Memory current
            \<or> argon2_Parallelism c < argon2_Parallelism current
            \<or> sint (argon2_KeyLen c) < sint (argon2_KeyLen current)))"
| "argon2_AtLeast c (Argon2Ptr None) = Inl PanicNilDereference"
| "argon2_AtLeast c current_imp = Inl PanicTypeAssertion"

text \<open>
  \<^verbatim>\<open>Params\<close> and \<^verbatim>\<open>SetParams\<close> share the format. \<^verbatim>\<open>Sscanf\<close> stores through the
  pointers \<^verbatim>\<open>&c.KeyLen, &c.Iterations, &c.Memory, &c.Parallelism\<close>; a pointer to a field
  is the store into that field of the receiver. \<open>argon2_SetParams_scan\<close> is the
  \<^verbatim>\<open>Sscanf\<close> call of \<^verbatim>\<open>SetParams\<close>: it returns the receiver as the call leaves it,
  with the error if there is one. \<^verbatim>\<open>SetParams\<close> returns the receiver after the call
  beside the error, since the method mutates it.
\<close>

definition argon2_format :: string where
  "argon2_format = ''KeyLen=%d,I=%d,M=%d,P=%d''"

definition argon2_Params :: "argon2_Config \<Rightarrow> string" where
  "argon2_Params c =
     Sprintf argon2_format
       [IntArg (argon2_KeyLen c), Uint32Arg (argon2_Iterations c),
        Uint32Arg (argon2_Memory c), Uint32Arg (argon2_Parallelism c)]"

definition argon2_SetParams_scan :: "argon2_Config \<Rightarrow> string \<Rightarrow> argon2_Config \<times> scanError option" where
  "argon2_SetParams_scan c s =
     Sscanf s argon2_format
       [IntPtr (\<lambda>v c. c\<lparr>argon2_KeyLen := v\<rparr>),
        Uint32Ptr (\<lambda>v c. c\<lparr>argon2_Iterations := v\<rparr>),
        Uint32Ptr (\<lambda>v c. c\<lparr>argon2_Memory := v\<rparr>),
        Uint32Ptr (\<lambda>v c. c\<lparr>argon2_Parallelism := v\<rparr>)] c"

definition argon2_SetParams ::
    "argon2_kdf \<Rightarrow> argon2_Config \<Rightarrow> string \<Rightarrow> argon2_Config \<times> error option" where
  "argon2_SetParams K c s =
     (case argon2_SetParams_scan c s of
        (c', Some err) \<Rightarrow> (c', Some (ScanError err))
      | (c', None) \<Rightarrow> (c', argon2_validate K c'))"

subsection \<open>The pbkdf2 plugin\<close>

text \<open>\<^verbatim>\<open>Hash.Size\<close>: the digest size of the standard library's hash, a panic for a name
  that is not in the table.\<close>

fun crypto_Hash_Size :: "crypto_Hash \<Rightarrow> go_int" where
  "crypto_Hash_Size crypto_SHA1 = 20"
| "crypto_Hash_Size crypto_SHA224 = 28"
| "crypto_Hash_Size crypto_SHA256 = 32"
| "crypto_Hash_Size crypto_SHA384 = 48"
| "crypto_Hash_Size crypto_SHA512 = 64"
| "crypto_Hash_Size crypto_Hash_zero = 0"

definition Hash_Size :: "Hash \<Rightarrow> panic + go_int" where
  "Hash_Size h =
     (case hashes h of
        None \<Rightarrow> Inl (PanicUnknownHash (''unknown hash: '' @ h))
      | Some hash \<Rightarrow> Inr (crypto_Hash_Size hash))"

definition pbkdf2_DefaultIterations :: go_int where "pbkdf2_DefaultIterations = 2000"
definition pbkdf2_DefaultSaltLen :: go_int where "pbkdf2_DefaultSaltLen = 16"
definition pbkdf2_DefaultPrf :: Hash where "pbkdf2_DefaultPrf = SHA1"

text \<open>
  \<^verbatim>\<open>var DefaultKeyLen = DefaultPrf.Size()\<close>. The initialiser would panic for a hash that
  is not in the table; SHA1 is, and the value is 20 (\<open>pbkdf2_DefaultKeyLen_value\<close>).
\<close>

definition pbkdf2_DefaultKeyLen :: go_int where
  "pbkdf2_DefaultKeyLen = (case Hash_Size pbkdf2_DefaultPrf of Inr n \<Rightarrow> n | Inl p \<Rightarrow> 0)"

definition pbkdf2_GetConfig :: pbkdf2_Config where
  "pbkdf2_GetConfig =
     \<lparr>pbkdf2_Hash = pbkdf2_DefaultPrf,
      pbkdf2_Iterations = pbkdf2_DefaultIterations,
      pbkdf2_KeyLen = pbkdf2_DefaultKeyLen,
      pbkdf2_SaltLen = pbkdf2_DefaultSaltLen\<rparr>"

definition pbkdf2_validate :: "pbkdf2_Config \<Rightarrow> error option" where
  "pbkdf2_validate c =
     (case hashes (pbkdf2_Hash c) of
        None \<Rightarrow> Some (ErrInvalidHash (''Invalid Hash: '' @ pbkdf2_Hash c))
      | Some h \<Rightarrow> None)"

text \<open>
  \<^verbatim>\<open>pbkdf2.Key\<close> of the external library is the parameter \<open>K\<close>; it receives the
  constructor of the hash looked up in \<^verbatim>\<open>hashes\<close>, the zero \<^verbatim>\<open>crypto.Hash\<close> for a
  missing name. The method always returns a nil error.
\<close>

type_synonym pbkdf2_kdf = "bytes \<Rightarrow> bytes \<Rightarrow> go_int \<Rightarrow> go_int \<Rightarrow> crypto_Hash \<Rightarrow> bytes"

definition pbkdf2_Key :: "pbkdf2_kdf \<Rightarrow> pbkdf2_Config \<Rightarrow> bytes \<Rightarrow> bytes \<Rightarrow> error + bytes" where
  "pbkdf2_Key K c password salt =
     Inr (K password salt (pbkdf2_Iterations c) (pbkdf2_KeyLen c)
            (case hashes (pbkdf2_Hash c) of None \<Rightarrow> crypto_Hash_zero | Some h \<Rightarrow> h))"

fun pbkdf2_AtLeast :: "pbkdf2_Config \<Rightarrow> Implementer \<Rightarrow> panic + bool" where
  "pbkdf2_AtLeast c (Pbkdf2Ptr (Some current)) =
     Inr (\<not> (sint (pbkdf2_Iterations c) < sint (pbkdf2_Iterations current)
            \<or> sint (pbkdf2_KeyLen c) < sint (pbkdf2_KeyLen current)
            \<or> sint (pbkdf2_SaltLen c) < sint (pbkdf2_SaltLen current)))"
| "pbkdf2_AtLeast c (Pbkdf2Ptr None) = Inl PanicNilDereference"
| "pbkdf2_AtLeast c current_imp = Inl PanicTypeAssertion"

definition pbkdf2_format :: string where
  "pbkdf2_format = ''keylen=%d,iterations=%d,hmac=%s''"

definition pbkdf2_Params :: "pbkdf2_Config \<Rightarrow> string" where
  "pbkdf2_Params c =
     Sprintf pbkdf2_format
       [IntArg (pbkdf2_KeyLen c), IntArg (pbkdf2_Iterations c), StringArg (pbkdf2_Hash c)]"

definition pbkdf2_SetParams_scan :: "pbkdf2_Config \<Rightarrow> string \<Rightarrow> pbkdf2_Config \<times> scanError option" where
  "pbkdf2_SetParams_scan c params =
     Sscanf params pbkdf2_format
       [IntPtr (\<lambda>v c. c\<lparr>pbkdf2_KeyLen := v\<rparr>),
        IntPtr (\<lambda>v c. c\<lparr>pbkdf2_Iterations := v\<rparr>),
        StringPtr (\<lambda>v c. c\<lparr>pbkdf2_Hash := v\<rparr>)] c"

definition pbkdf2_SetParams :: "pbkdf2_Config \<Rightarrow> string \<Rightarrow> pbkdf2_Config \<times> error option" where
  "pbkdf2_SetParams c params =
     (case pbkdf2_SetParams_scan c params of
        (c', Some err) \<Rightarrow> (c', Some (ScanError err))
      | (c', None) \<Rightarrow> (c', pbkdf2_validate c'))"

subsection \<open>Registration\<close>

text \<open>
  An encoder made by \<^verbatim>\<open>bridge.New(id, fn)\<close> is its identifier and its constructor
  \<^verbatim>\<open>fn\<close>. The constructor copies the captured configuration and returns a pointer to
  the copy, so it is the Implementer value it yields on every call.
\<close>

text \<open>
  Modelled from the spec: the package \<^verbatim>\<open>mcf\<close> with its registry is not among the
  sources. The Registry is a mapping from algorithm id to an Encoder instance; the ids
  here are the two that the plugins register under.
\<close>

datatype Encoding = ARGON2 | PBKDF2

record Encoder =
  Encoder_id :: bytes
  Encoder_fn :: Implementer

type_synonym Registry = "Encoding \<rightharpoonup> Encoder"

definition bridge_New :: "bytes \<Rightarrow> Implementer \<Rightarrow> Encoder" where
  \<comment> \<open>Modelled from the spec: \<^verbatim>\<open>bridge.New\<close> is not among the sources; the Encoding Bridge
      adapts one plugin, given by its id and its Config constructor, into an Encoder.\<close>
  "bridge_New ident fn = \<lparr>Encoder_id = ident, Encoder_fn = fn\<rparr>"

definition mcf_Register :: "Encoding \<Rightarrow> Encoder \<Rightarrow> Registry \<Rightarrow> error option \<times> Registry" where
  \<comment> \<open>Modelled from the spec: \<^verbatim>\<open>mcf.Register\<close> is not among the sources;
      \<^verbatim>\<open>Register(id, encoderFactory)\<close> installs or replaces the Encoder for \<^verbatim>\<open>id\<close>.\<close>
  "mcf_Register encoding enc reg = (None, reg(encoding \<mapsto> enc))"

definition argon2_register :: "argon2_Config \<Rightarrow> Registry \<Rightarrow> error option \<times> Registry" where
  "argon2_register config reg =
     mcf_Register ARGON2 (bridge_New ''argon2'' (Argon2Ptr (Some config))) reg"

definition argon2_SetConfig ::
    "argon2_kdf \<Rightarrow> argon2_Config \<Rightarrow> Registry \<Rightarrow> error option \<times> Registry" where
  "argon2_SetConfig K config reg =
     (case argon2_validate K config of
        Some err \<Rightarrow> (Some err, reg)
      | None \<Rightarrow> argon2_register config reg)"

definition pbkdf2_register :: "pbkdf2_Config \<Rightarrow> Registry \<Rightarrow> error option \<times> Registry" where
  "pbkdf2_register config reg =
     mcf_Register PBKDF2 (bridge_New ''pbkdf2'' (Pbkdf2Ptr (Some config))) reg"

definition pbkdf2_SetConfig :: "pbkdf2_Config \<Rightarrow> Registry \<Rightarrow> error option \<times> Registry" where
  "pbkdf2_SetConfig config reg =
     (case pbkdf2_validate config of
        Some err \<Rightarrow> (Some err, reg)
      | None \<Rightarrow> pbkdf2_register config reg)"

section \<open>The specification's reading of strength\<close>

text \<open>
  The specification asks of \<^verbatim>\<open>atLeast(params, reference)\<close> that every cost or length
  dimension of \<open>params\<close> be at least the corresponding dimension of \<open>reference\<close>. For an
  argon2 Config these are its five fields: three costs and two lengths.
\<close>

definition argon2_every_dimension_ge :: "argon2_Config \<Rightarrow> argon2_Config \<Rightarrow> bool" where
  "argon2_every_dimension_ge params reference =
     (argon2_Iterations reference \<le> argon2_Iterations params
      \<and> argon2_Memory reference \<le> argon2_Memory params
      \<and> argon2_Parallelism reference \<le> argon2_Parallelism params
      \<and> sint (argon2_KeyLen reference) \<le> sint (argon2_KeyLen params)
      \<and> sint (argon2_SaltLen reference) \<le> sint (argon2_SaltLen params))"

section \<open>Decimal text is read back as the number it prints\<close>

lemma lt10_cases:
  "(d::nat) < 10 \<Longrightarrow>
     d = 0 \<or> d = 1 \<or> d = 2 \<or> d = 3 \<or> d = 4 \<or> d = 5 \<or> d = 6 \<or> d = 7 \<or> d = 8 \<or> d = 9"
  by arith

lemma digitVal_digitChar: "d < 10 \<Longrightarrow> digitVal (digitChar d) = d"
  using lt10_cases [of d] by (auto simp add: digitVal_def digitChar_def decimalDigits_def)

lemma isDigit_digitChar: "d < 10 \<Longrightarrow> isDigit (digitChar d)"
  using lt10_cases [of d] by (auto simp add: isDigit_def digitChar_def decimalDigits_def)

lemma formatBits_acc: "formatBits u a = formatBits u [] @ a"
proof (induction u arbitrary: a rule: less_induct)
  case (less u)
  show ?case
  proof (cases "10 \<le> u")
    case True
    then have lt: "u div 10 < u" by simp
    have "formatBits u a = formatBits (u div 10) (digitChar (u mod 10) # a)"
      using True by (simp add: formatBits.simps [of u])
    also have "\<dots> = formatBits (u div 10) [] @ digitChar (u mod 10) # a"
      by (rule less.IH [OF lt])
    also have "\<dots> = (formatBits (u div 10) [] @ [digitChar (u mod 10)]) @ a"
      by simp
    also have "formatBits (u div 10) [] @ [digitChar (u mod 10)]
        = formatBits (u div 10) [digitChar (u mod 10)]"
      by (rule less.IH [OF lt, symmetric])
    also have "\<dots> = formatBits u []"
      using True by (simp add: formatBits.simps [of u])
    finally show ?thesis .
  next
    case False
    then show ?thesis by (simp add: formatBits.simps [of u])
  qed
qed

lemma FormatUint_small: "u < 10 \<Longrightarrow> FormatUint u = [digitChar u]"
  by (simp add: FormatUint_def formatBits.simps [of u])

lemma FormatUint_step:
  "10 \<le> u \<Longrightarrow> FormatUint u = FormatUint (u div 10) @ [digitChar (u mod 10)]"
  unfolding FormatUint_def
  by (subst formatBits.simps) (simp add: formatBits_acc [of _ "[_]"])

lemma FormatUint_digits: "r \<in> set (FormatUint u) \<Longrightarrow> isDigit r"
proof (induction u arbitrary: r rule: less_induct)
  case (less u)
  show ?case
  proof (cases "10 \<le> u")
    case True
    then have "u div 10 < u" by simp
    then have "r \<in> set (FormatUint (u div 10)) \<Longrightarrow> isDigit r"
      by (rule less.IH)
    then show ?thesis
      using less.prems True by (auto simp add: FormatUint_step isDigit_digitChar)
  next
    case False
    then show ?thesis using less.prems by (simp add: FormatUint_small isDigit_digitChar)
  qed
qed

lemma FormatUint_list_all: "list_all isDigit (FormatUint u)"
  by (simp add: list_all_iff FormatUint_digits)

lemma FormatUint_nonempty: "FormatUint u \<noteq> []"
  by (cases "10 \<le> u") (simp_all add: FormatUint_step FormatUint_small)

lemma digitsVal_snoc: "digitsVal (tok @ [r]) = digitsVal tok * 10 + digitVal r"
  by (simp add: digitsVal_def)

lemma digitsVal_FormatUint: "digitsVal (FormatUint u) = u"
proof (induction u rule: less_induct)
  case (less u)
  show ?case
  proof (cases "10 \<le> u")
    case True
    then have "u div 10 < u" by simp
    then have "digitsVal (FormatUint (u div 10)) = u div 10" by (rule less.IH)
    then show ?thesis
      using True by (simp add: FormatUint_step digitsVal_snoc digitVal_digitChar)
  next
    case False
    then show ?thesis by (simp add: FormatUint_small digitsVal_def digitVal_digitChar)
  qed
qed

lemma FormatUint_Cons: "\<exists>r rs. FormatUint u = r # rs \<and> isDigit r"
proof (cases "FormatUint u")
  case Nil
  then show ?thesis by (simp add: FormatUint_nonempty)
next
  case (Cons r rs)
  then have "r \<in> set (FormatUint u)" by simp
  then show ?thesis using Cons FormatUint_digits by blast
qed

lemma isDigit_not_isSpace: "isDigit r \<Longrightarrow> \<not> isSpace r"
  by (auto simp add: isDigit_def isSpace_def decimalDigits_def)

lemma isDigit_not_sign: "isDigit r \<Longrightarrow> r \<noteq> CHR ''+'' \<and> r \<noteq> CHR ''-''"
  by (auto simp add: isDigit_def decimalDigits_def)

lemma SkipSpace_nonspace: "\<not> isSpace r \<Longrightarrow> SkipSpace (r # rs) = Inr (r # rs)"
  by (auto simp add: isSpace_def)

lemma takeWhile_FormatUint:
  "endsNumber rest \<Longrightarrow> takeWhile isDigit (FormatUint u @ rest) = FormatUint u"
  by (cases rest) (simp_all add: endsNumber_def takeWhile_append2 FormatUint_digits)

lemma dropWhile_FormatUint:
  "endsNumber rest \<Longrightarrow> dropWhile isDigit (FormatUint u @ rest) = rest"
  by (cases rest) (simp_all add: endsNumber_def dropWhile_append2 FormatUint_digits)

lemma scanNumber_FormatUint:
  assumes "endsNumber rest"
  shows "scanNumber (FormatUint u @ rest) = Inr (FormatUint u, rest)"
proof -
  obtain r rs where f: "FormatUint u = r # rs" and d: "isDigit r"
    using FormatUint_Cons by blast
  have "scanNumber ((r # rs) @ rest)
      = Inr (takeWhile isDigit ((r # rs) @ rest), dropWhile isDigit ((r # rs) @ rest))"
    using d by (simp add: scanNumber_def)
  then show ?thesis
    using assms by (simp add: f [symmetric] takeWhile_FormatUint dropWhile_FormatUint)
qed

lemma scanUint32_FormatUint:
  fixes w :: uint32
  assumes "endsNumber rest"
  shows "scanUint32 (CHR ''d'') (FormatUint (unat w) @ rest) = Inr (w, rest)"
proof -
  obtain r rs where f: "FormatUint (unat w) = r # rs" and d: "isDigit r"
    using FormatUint_Cons by blast
  have sk: "SkipSpace (r # rs @ rest) = Inr (r # rs @ rest)"
    by (rule SkipSpace_nonspace) (simp add: isDigit_not_isSpace d)
  have sn: "scanNumber (r # rs @ rest) = Inr (r # rs, rest)"
    using scanNumber_FormatUint [OF assms, of "unat w"] by (simp add: f)
  have "unat w < 2 ^ 32"
    using unsigned_less [of w] by simp
  then have pu: "ParseUint (r # rs) = Inr (unat w)" and lt: "unat w < 2 ^ 32"
    using digitsVal_FormatUint [of "unat w"] FormatUint_list_all [of "unat w"]
    by (simp_all add: ParseUint_def f)
  show ?thesis
    using sk sn pu lt by (simp add: scanUint32_def f)
qed

lemma sint64_bounds:
  fixes w :: go_int
  shows "- (2 ^ 63) \<le> sint w" and "sint w < 2 ^ 63"
  using sint_ge [of w] sint_lt [of w] by simp_all

lemma scanInt_FormatInt:
  fixes w :: go_int
  assumes "endsNumber rest"
  shows "scanInt (CHR ''d'') (FormatInt (sint w) @ rest) = Inr (w, rest)"
proof (cases "sint w < 0")
  case True
  define n where "n = nat (- sint w)"
  obtain r rs where f: "FormatUint n = r # rs" and d: "isDigit r"
    using FormatUint_Cons by blast
  have fi: "FormatInt (sint w) = CHR ''-'' # r # rs"
    using True by (simp add: FormatInt_def n_def [symmetric] f)
  have sk: "SkipSpace (CHR ''-'' # r # rs @ rest) = Inr (CHR ''-'' # r # rs @ rest)"
    by (rule SkipSpace_nonspace) (simp add: isSpace_def)
  have sn: "scanNumber (r # rs @ rest) = Inr (r # rs, rest)"
    using scanNumber_FormatUint [OF assms, of n] by (simp add: f)
  have le: "n \<le> 2 ^ 63"
    using sint64_bounds(1) [of w] True by (simp add: n_def)
  have dv: "digitsVal (r # rs) = n"
    using digitsVal_FormatUint [of n] by (simp add: f)
  have val: "- int n = sint w"
    using True by (simp add: n_def)
  have la: "list_all isDigit (r # rs)"
    using FormatUint_list_all [of n] by (simp add: f)
  have pi: "ParseInt (CHR ''-'' # r # rs) = Inr (sint w)"
    using le dv val la by (simp add: ParseInt_def Let_def)
  show ?thesis
    using sk sn pi by (simp add: scanInt_def fi)
next
  case False
  define n where "n = nat (sint w)"
  obtain r rs where f: "FormatUint n = r # rs" and d: "isDigit r"
    using FormatUint_Cons by blast
  have fi: "FormatInt (sint w) = r # rs"
    using False by (simp add: FormatInt_def n_def [symmetric] f)
  have sk: "SkipSpace (r # rs @ rest) = Inr (r # rs @ rest)"
    by (rule SkipSpace_nonspace) (simp add: isDigit_not_isSpace d)
  have sn: "scanNumber (r # rs @ rest) = Inr (r # rs, rest)"
    using scanNumber_FormatUint [OF assms, of n] by (simp add: f)
  have lt: "n < 2 ^ 63"
    using sint64_bounds(2) [of w] False by (simp add: n_def)
  have dv: "digitsVal (r # rs) = n"
    using digitsVal_FormatUint [of n] by (simp add: f)
  have val: "int n = sint w"
    using False by (simp add: n_def)
  have la: "list_all isDigit (r # rs)"
    using FormatUint_list_all [of n] by (simp add: f)
  have pi: "ParseInt (r # rs) = Inr (sint w)"
    using lt dv val la isDigit_not_sign [OF d] by (simp add: ParseInt_def Let_def)
  show ?thesis
    using sk sn pi isDigit_not_sign [OF d] by (simp add: scanInt_def fi)
qed

lemma SkipSpace_FormatUint: "SkipSpace (FormatUint u @ rest) = Inr (FormatUint u @ rest)"
proof -
  obtain r rs where f: "FormatUint u = r # rs" and d: "isDigit r"
    using FormatUint_Cons by blast
  have "SkipSpace (r # rs @ rest) = Inr (r # rs @ rest)"
    by (rule SkipSpace_nonspace) (simp add: isDigit_not_isSpace d)
  then show ?thesis by (simp add: f)
qed

lemma SkipSpace_FormatInt: "SkipSpace (FormatInt i @ rest) = Inr (FormatInt i @ rest)"
proof (cases "i < 0")
  case True
  have "SkipSpace (CHR ''-'' # FormatUint (nat (- i)) @ rest)
      = Inr (CHR ''-'' # FormatUint (nat (- i)) @ rest)"
    by (rule SkipSpace_nonspace) (simp add: isSpace_def)
  then show ?thesis using True by (simp add: FormatInt_def)
next
  case False
  then show ?thesis by (simp add: FormatInt_def SkipSpace_FormatUint)
qed

lemmas SkipSpace_FormatUint_end = SkipSpace_FormatUint [of _ "[]", simplified]
lemmas scanUint32_FormatUint_end = scanUint32_FormatUint [of "[]", simplified endsNumber_def, simplified]

lemma argon2_Params_text:
  "argon2_Params c =
     ''KeyLen='' @ FormatInt (sint (argon2_KeyLen c)) @
     '',I='' @ FormatUint (unat (argon2_Iterations c)) @
     '',M='' @ FormatUint (unat (argon2_Memory c)) @
     '',P='' @ FormatUint (unat (argon2_Parallelism c))"
  by (simp add: argon2_Params_def Sprintf_def argon2_format_def)

lemma endsNumber_comma: "endsNumber (CHR '','' # rest)"
  by (simp add: endsNumber_def isDigit_def decimalDigits_def)

lemma argon2_scan_Params:
  "argon2_SetParams_scan d (argon2_Params c)
   = (d\<lparr>argon2_KeyLen := argon2_KeyLen c, argon2_Iterations := argon2_Iterations c,
        argon2_Memory := argon2_Memory c, argon2_Parallelism := argon2_Parallelism c\<rparr>, None)"
  by (simp add: argon2_SetParams_scan_def argon2_Params_text Sscanf_def argon2_format_def isSpace_def
      SkipSpace_FormatInt SkipSpace_FormatUint SkipSpace_FormatUint_end
      scanInt_FormatInt scanUint32_FormatUint scanUint32_FormatUint_end endsNumber_comma)

lemma pbkdf2_Params_text:
  "pbkdf2_Params c =
     ''keylen='' @ FormatInt (sint (pbkdf2_KeyLen c)) @
     '',iterations='' @ FormatInt (sint (pbkdf2_Iterations c)) @
     '',hmac='' @ pbkdf2_Hash c"
  by (simp add: pbkdf2_Params_def Sprintf_def pbkdf2_format_def)

lemma hashes_dom:
  "hashes h = Some x \<Longrightarrow> h = ''SHA1'' \<or> h = ''SHA224'' \<or> h = ''SHA256'' \<or> h = ''SHA384'' \<or> h = ''SHA512''"
  by (simp add: hashes_def SHA1_def SHA224_def SHA256_def SHA384_def SHA512_def split: if_splits)

lemma convertString_hash:
  assumes "hashes h = Some x"
  shows "SkipSpace h = Inr h" and "convertString (CHR ''s'') h = Inr (h, [])"
  using hashes_dom [OF assms] by (auto simp add: convertString_def isSpace_def)

lemma pbkdf2_valid_hash: "pbkdf2_validate c = None \<Longrightarrow> \<exists>x. hashes (pbkdf2_Hash c) = Some x"
  by (simp add: pbkdf2_validate_def split: option.splits)

lemma pbkdf2_scan_Params:
  assumes "pbkdf2_validate c = None"
  shows "pbkdf2_SetParams_scan d (pbkdf2_Params c)
   = (d\<lparr>pbkdf2_KeyLen := pbkdf2_KeyLen c, pbkdf2_Iterations := pbkdf2_Iterations c,
        pbkdf2_Hash := pbkdf2_Hash c\<rparr>, None)"
proof -
  obtain x where h: "hashes (pbkdf2_Hash c) = Some x"
    using pbkdf2_valid_hash [OF assms] by blast
  show ?thesis
    by (simp add: pbkdf2_SetParams_scan_def pbkdf2_Params_text Sscanf_def pbkdf2_format_def isSpace_def
        SkipSpace_FormatInt scanInt_FormatInt endsNumber_comma convertString_hash [OF h])
qed

section \<open>What a scan leaves untouched\<close>

lemma scanOne_frame:
  assumes "scanOne verb p inp c = Inr (c', rest)"
    and "\<And>st v x. p = IntPtr st \<Longrightarrow> f (st v x) = f x"
    and "\<And>st v x. p = Uint32Ptr st \<Longrightarrow> f (st v x) = f x"
    and "\<And>st v x. p = StringPtr st \<Longrightarrow> f (st v x) = f x"
  shows "f c' = f c"
  using assms by (cases p) (auto split: sum.splits)

lemma doScanf_frame:
  assumes "\<And>st v x. IntPtr st \<in> set a \<Longrightarrow> f (st v x) = f x"
    and "\<And>st v x. Uint32Ptr st \<in> set a \<Longrightarrow> f (st v x) = f x"
    and "\<And>st v x. StringPtr st \<in> set a \<Longrightarrow> f (st v x) = f x"
  shows "f (fst (doScanf fmt a inp c)) = f c"
  using assms
proof (induction fmt a inp c rule: doScanf.induct)
  case (1 a inp c)
  show ?case by simp
next
  case (2 fmtc fmt a inp c)
  show ?case
  proof (cases "isSpace fmtc")
    case True
    then show ?thesis by simp
  next
    case ns: False
    show ?thesis
    proof (cases "fmtc = CHR ''%''")
      case False
      show ?thesis
      proof (cases inp)
        case Nil
        then show ?thesis using ns False by simp
      next
        case (Cons inputc inp')
        show ?thesis
        proof (cases "fmtc = inputc")
          case True
          have "f (fst (doScanf fmt a inp' c)) = f c"
            using "2.IH"(2) [OF ns False Cons True] "2.prems" by blast
          then show ?thesis using ns False Cons True by simp
        next
          case ne: False
          then show ?thesis using ns False Cons by simp
        qed
      qed
    next
      case pc: True
      show ?thesis
      proof (cases fmt)
        case Nil
        then show ?thesis using ns pc by simp
      next
        case fc: (Cons verb fmt')
        show ?thesis
        proof (cases "verb \<notin> set ''ds''")
          case True
          then show ?thesis using ns pc fc by simp
        next
          case vb: False
          show ?thesis
          proof (cases "SkipSpace inp")
            case (Inl e)
            then show ?thesis using ns pc fc vb by simp
          next
            case sk: (Inr inp1)
            show ?thesis
            proof (cases a)
              case Nil
              then show ?thesis using ns pc fc vb sk by simp
            next
              case ac: (Cons arg a')
              show ?thesis
              proof (cases "scanOne verb arg inp1 c")
                case (Inl e)
                then show ?thesis using ns pc fc vb sk ac by simp
              next
                case (Inr res)
                obtain c' inp2 where res: "res = (c', inp2)" by (cases res)
                have so: "scanOne verb arg inp1 c = Inr (c', inp2)"
                  using Inr res by simp
                have step: "f c' = f c"
                  by (rule scanOne_frame [OF so]) (use "2.prems" ac in auto)
                have "f (fst (doScanf fmt' a' inp2 c')) = f c'"
                  by (rule "2.IH"(1) [OF ns pc fc vb sk ac Inr res [symmetric]])
                    (use "2.prems" ac in auto)
                then show ?thesis using ns pc fc vb sk ac so step by simp
              qed
            qed
          qed
        qed
      qed
    qed
  qed
qed

lemma argon2_scan_SaltLen:
  "argon2_SaltLen (fst (argon2_SetParams_scan c s)) = argon2_SaltLen c"
  unfolding argon2_SetParams_scan_def Sscanf_def
  by (rule doScanf_frame) auto

lemma argon2_SetParams_fst: "fst (argon2_SetParams K c s) = fst (argon2_SetParams_scan c s)"
  by (simp add: argon2_SetParams_def split: prod.splits option.splits)

section \<open>The two formats stay inside the modelled fragment\<close>

lemma SkipSpace_error: "SkipSpace inp = Inl e \<Longrightarrow> e = UnexpectedNewline"
  by (induction inp rule: SkipSpace.induct) (auto split: if_splits)

lemma scanOne_modelled:
  assumes "scanOne verb p inp c = Inl e" and "verb \<in> set ''ds''"
  shows "e \<noteq> FormatNotModelled"
proof (cases p)
  case (IntPtr st)
  then show ?thesis
    using assms
    by (auto simp add: scanInt_def scanNumber_def ParseInt_def Let_def
        dest: SkipSpace_error split: sum.splits list.splits if_splits prod.splits)
next
  case (Uint32Ptr st)
  then show ?thesis
    using assms
    by (auto simp add: scanUint32_def scanNumber_def ParseUint_def Let_def
        dest: SkipSpace_error split: sum.splits list.splits if_splits prod.splits)
next
  case (StringPtr st)
  then show ?thesis
    using assms
    by (auto simp add: convertString_def dest: SkipSpace_error
        split: sum.splits list.splits if_splits prod.splits)
qed

lemma doScanf_modelled:
  "modelledFormat fmt \<Longrightarrow> snd (doScanf fmt a inp c) \<noteq> Some FormatNotModelled"
proof (induction fmt a inp c rule: doScanf.induct)
  case (1 a inp c)
  show ?case by simp
next
  case (2 fmtc fmt a inp c)
  have ns: "\<not> isSpace fmtc"
    using "2.prems" by (simp split: if_splits)
  show ?case
  proof (cases "fmtc = CHR ''%''")
    case False
    have mf: "modelledFormat fmt"
      using "2.prems" ns False by simp
    show ?thesis
    proof (cases inp)
      case Nil
      then show ?thesis using ns False by simp
    next
      case (Cons inputc inp')
      show ?thesis
      proof (cases "fmtc = inputc")
        case True
        have "snd (doScanf fmt a inp' c) \<noteq> Some FormatNotModelled"
          by (rule "2.IH"(2) [OF ns False Cons True mf])
        then show ?thesis using ns False Cons True by simp
      next
        case ne: False
        then show ?thesis using ns False Cons by simp
      qed
    qed
  next
    case pc: True
    obtain verb fmt' where fc: "fmt = verb # fmt'" and vb: "verb \<in> set ''ds''"
      and mf: "modelledFormat fmt'"
      using "2.prems" ns pc by (cases fmt) (simp_all)
    have nvb: "\<not> verb \<notin> set ''ds''" using vb by simp
    show ?thesis
    proof (cases "SkipSpace inp")
      case (Inl e)
      then show ?thesis using ns pc fc vb SkipSpace_error [OF Inl] by simp
    next
      case sk: (Inr inp1)
      show ?thesis
      proof (cases a)
        case Nil
        then show ?thesis using ns pc fc vb sk by simp
      next
        case ac: (Cons arg a')
        show ?thesis
        proof (cases "scanOne verb arg inp1 c")
          case (Inl e)
          then show ?thesis using ns pc fc vb sk ac scanOne_modelled [OF Inl vb] by simp
        next
          case (Inr res)
          obtain c' inp2 where res: "res = (c', inp2)" by (cases res)
          have "snd (doScanf fmt' a' inp2 c') \<noteq> Some FormatNotModelled"
            by (rule "2.IH"(1) [OF ns pc fc nvb sk ac Inr res [symmetric] mf])
          then show ?thesis using ns pc fc vb sk ac Inr res by simp
        qed
      qed
    qed
  qed
qed

lemma formats_modelled:
  "snd (argon2_SetParams_scan c s) \<noteq> Some FormatNotModelled"
  "snd (pbkdf2_SetParams_scan p t) \<noteq> Some FormatNotModelled"
proof -
  have a: "modelledFormat argon2_format"
    by (simp add: argon2_format_def isSpace_def)
  show "snd (argon2_SetParams_scan c s) \<noteq> Some FormatNotModelled"
    unfolding argon2_SetParams_scan_def Sscanf_def by (rule doScanf_modelled [OF a])
  have p: "modelledFormat pbkdf2_format"
    by (simp add: pbkdf2_format_def isSpace_def)
  show "snd (pbkdf2_SetParams_scan p t) \<noteq> Some FormatNotModelled"
    unfolding pbkdf2_SetParams_scan_def Sscanf_def by (rule doScanf_modelled [OF p])
qed

section \<open>Printing then scanning\<close>

lemma pbkdf2_DefaultKeyLen_value:
  "Hash_Size pbkdf2_DefaultPrf = Inr 20" and "pbkdf2_DefaultKeyLen = 20"
  by (simp_all add: pbkdf2_DefaultKeyLen_def Hash_Size_def pbkdf2_DefaultPrf_def hashes_def
      SHA1_def SHA224_def SHA256_def SHA384_def SHA512_def)

lemmas default_defs =
  argon2_GetConfig_def argon2_DefaultKeyLen_def argon2_DefaultSaltLen_def
  argon2_DefaultIterations_def argon2_DefaultMemory_def argon2_DefaultParallelism_def
  pbkdf2_GetConfig_def pbkdf2_DefaultIterations_def pbkdf2_DefaultSaltLen_def
  pbkdf2_DefaultPrf_def pbkdf2_DefaultKeyLen_def Hash_Size_def
  hashes_def SHA1_def SHA224_def SHA256_def SHA384_def SHA512_def

lemmas scan_defs =
  Sscanf_def isSpace_def scanInt_def scanUint32_def scanNumber_def convertString_def
  isDigit_def decimalDigits_def ParseInt_def ParseUint_def digitsVal_def digitVal_def

lemma argon2_SetParams_Params:
  "argon2_SetParams K d (argon2_Params c)
   = (d\<lparr>argon2_KeyLen := argon2_KeyLen c, argon2_Iterations := argon2_Iterations c,
        argon2_Memory := argon2_Memory c, argon2_Parallelism := argon2_Parallelism c\<rparr>,
      argon2_validate K c)"
  by (simp add: argon2_SetParams_def argon2_scan_Params argon2_validate_def argon2_Key_def)

lemma pbkdf2_SetParams_Params:
  assumes "pbkdf2_validate p = None"
  shows "pbkdf2_SetParams q (pbkdf2_Params p)
   = (q\<lparr>pbkdf2_KeyLen := pbkdf2_KeyLen p, pbkdf2_Iterations := pbkdf2_Iterations p,
        pbkdf2_Hash := pbkdf2_Hash p\<rparr>, None)"
proof -
  have "pbkdf2_validate (q\<lparr>pbkdf2_KeyLen := pbkdf2_KeyLen p, pbkdf2_Iterations := pbkdf2_Iterations p,
        pbkdf2_Hash := pbkdf2_Hash p\<rparr>) = pbkdf2_validate p"
    by (simp add: pbkdf2_validate_def split: option.splits)
  then show ?thesis
    using assms by (simp add: pbkdf2_SetParams_def pbkdf2_scan_Params [OF assms])
qed

lemma argon2_AtLeast_fields:
  assumes "argon2_KeyLen a = argon2_KeyLen b" "argon2_Iterations a = argon2_Iterations b"
    "argon2_Memory a = argon2_Memory b" "argon2_Parallelism a = argon2_Parallelism b"
  shows "argon2_AtLeast a imp = argon2_AtLeast b imp"
    and "argon2_AtLeast x (Argon2Ptr (Some a)) = argon2_AtLeast x (Argon2Ptr (Some b))"
proof -
  show "argon2_AtLeast a imp = argon2_AtLeast b imp"
  proof (cases imp)
    case (Argon2Ptr o1)
    then show ?thesis using assms by (cases o1) simp_all
  qed simp_all
  show "argon2_AtLeast x (Argon2Ptr (Some a)) = argon2_AtLeast x (Argon2Ptr (Some b))"
    using assms by simp
qed

section \<open>Round trip of the parameter text\<close>

text \<open>
  C1, amended. For every valid Config of either plugin, \<^verbatim>\<open>SetParams\<close> applied to the text
  that \<^verbatim>\<open>Params\<close> produced returns no error and sets, in whatever Config receives the
  call, every field the text carries to the original's value: \<^verbatim>\<open>KeyLen\<close>,
  \<^verbatim>\<open>Iterations\<close>, \<^verbatim>\<open>Memory\<close>, \<^verbatim>\<open>Parallelism\<close> for argon2 and \<^verbatim>\<open>KeyLen\<close>,
  \<^verbatim>\<open>Iterations\<close>, \<^verbatim>\<open>Hash\<close> for pbkdf2. These are all the fields that \<^verbatim>\<open>Key\<close> reads
  in either plugin and all that argon2's \<^verbatim>\<open>AtLeast\<close> reads, so \<^verbatim>\<open>Key\<close> and argon2's
  \<^verbatim>\<open>AtLeast\<close> cannot tell the result from the original. pbkdf2's \<^verbatim>\<open>SaltLen\<close>, which
  its \<^verbatim>\<open>AtLeast\<close> also reads, is not in the text and keeps the receiver's value.
\<close>

theorem Params_SetParams_roundtrip:
  assumes "argon2_validate K c = None" and "pbkdf2_validate p = None"
  shows "argon2_SetParams K d (argon2_Params c)
           = (d\<lparr>argon2_KeyLen := argon2_KeyLen c, argon2_Iterations := argon2_Iterations c,
                argon2_Memory := argon2_Memory c, argon2_Parallelism := argon2_Parallelism c\<rparr>,
              None)
     \<and> argon2_Key K (fst (argon2_SetParams K d (argon2_Params c))) = argon2_Key K c
     \<and> argon2_AtLeast (fst (argon2_SetParams K d (argon2_Params c))) imp = argon2_AtLeast c imp
     \<and> argon2_AtLeast x (Argon2Ptr (Some (fst (argon2_SetParams K d (argon2_Params c)))))
           = argon2_AtLeast x (Argon2Ptr (Some c))
     \<and> pbkdf2_SetParams q (pbkdf2_Params p)
           = (q\<lparr>pbkdf2_KeyLen := pbkdf2_KeyLen p, pbkdf2_Iterations := pbkdf2_Iterations p,
                pbkdf2_Hash := pbkdf2_Hash p\<rparr>,
              None)
     \<and> pbkdf2_Key K' (fst (pbkdf2_SetParams q (pbkdf2_Params p))) = pbkdf2_Key K' p
     \<and> pbkdf2_SaltLen (fst (pbkdf2_SetParams q (pbkdf2_Params p))) = pbkdf2_SaltLen q"
proof -
  let ?d = "d\<lparr>argon2_KeyLen := argon2_KeyLen c, argon2_Iterations := argon2_Iterations c,
                argon2_Memory := argon2_Memory c, argon2_Parallelism := argon2_Parallelism c\<rparr>"
  have a: "argon2_SetParams K d (argon2_Params c) = (?d, None)"
    using assms(1) by (simp add: argon2_SetParams_Params)
  have k: "argon2_Key K ?d = argon2_Key K c"
    by (simp add: argon2_Key_def fun_eq_iff)
  have l1: "argon2_AtLeast ?d imp = argon2_AtLeast c imp"
    by (rule argon2_AtLeast_fields) simp_all
  have l2: "argon2_AtLeast x (Argon2Ptr (Some ?d)) = argon2_AtLeast x (Argon2Ptr (Some c))"
    by (rule argon2_AtLeast_fields) simp_all
  have b: "pbkdf2_SetParams q (pbkdf2_Params p)
           = (q\<lparr>pbkdf2_KeyLen := pbkdf2_KeyLen p, pbkdf2_Iterations := pbkdf2_Iterations p,
                pbkdf2_Hash := pbkdf2_Hash p\<rparr>, None)"
    by (rule pbkdf2_SetParams_Params [OF assms(2)])
  have k': "pbkdf2_Key K' (q\<lparr>pbkdf2_KeyLen := pbkdf2_KeyLen p, pbkdf2_Iterations := pbkdf2_Iterations p,
                pbkdf2_Hash := pbkdf2_Hash p\<rparr>) = pbkdf2_Key K' p"
    by (simp add: pbkdf2_Key_def fun_eq_iff)
  show ?thesis
    using a k l1 l2 b k' by simp
qed

text \<open>
  The theorem at a concrete input: argon2 parameters read into the default Config with an
  8-byte salt length, under a key derivation that accepts everything, and the default
  pbkdf2 parameters read into a SHA256 Config.
\<close>

theorem Params_SetParams_roundtrip_witness:
  "argon2_SetParams (\<lambda>pw salt n par mem keyLen v. Inr []) (argon2_GetConfig\<lparr>argon2_SaltLen := 8\<rparr>)
       (argon2_Params \<lparr>argon2_KeyLen = 64, argon2_SaltLen = 16, argon2_Iterations = 9,
                       argon2_Memory = 4096, argon2_Parallelism = 1\<rparr>)
     = (\<lparr>argon2_KeyLen = 64, argon2_SaltLen = 8, argon2_Iterations = 9,
         argon2_Memory = 4096, argon2_Parallelism = 1\<rparr>, None)
   \<and> pbkdf2_SetParams \<lparr>pbkdf2_Hash = ''SHA256'', pbkdf2_Iterations = 4000, pbkdf2_KeyLen = 32,
                        pbkdf2_SaltLen = 8\<rparr>
       (pbkdf2_Params pbkdf2_GetConfig)
     = (\<lparr>pbkdf2_Hash = ''SHA1'', pbkdf2_Iterations = 2000, pbkdf2_KeyLen = 20,
         pbkdf2_SaltLen = 8\<rparr>, None)"
proof -
  have h1: "argon2_validate (\<lambda>pw salt n par mem keyLen v. Inr [])
              \<lparr>argon2_KeyLen = 64, argon2_SaltLen = 16, argon2_Iterations = 9,
               argon2_Memory = 4096, argon2_Parallelism = 1\<rparr> = None"
    by (simp add: argon2_validate_def argon2_Key_def)
  have h2: "pbkdf2_validate pbkdf2_GetConfig = None"
    by (simp add: pbkdf2_validate_def default_defs)
  show ?thesis
    using Params_SetParams_roundtrip [OF h1 h2,
        where d = "argon2_GetConfig\<lparr>argon2_SaltLen := 8\<rparr>"
          and q = "\<lparr>pbkdf2_Hash = ''SHA256'', pbkdf2_Iterations = 4000, pbkdf2_KeyLen = 32,
             pbkdf2_SaltLen = 8\<rparr>"]
    by (simp add: default_defs)
qed

text \<open>
  C1 as stated fails for pbkdf2 on \<^verbatim>\<open>SaltLen\<close>. The default Config is valid and has
  \<^verbatim>\<open>SaltLen\<close> 16; its parameter text read into a Config with \<^verbatim>\<open>SaltLen\<close> 8 leaves 8
  there, and \<^verbatim>\<open>AtLeast\<close> against the default tells the two apart.
\<close>

theorem pbkdf2_roundtrip_SaltLen_counterexample:
  "pbkdf2_validate pbkdf2_GetConfig = None
   \<and> pbkdf2_SetParams \<lparr>pbkdf2_Hash = ''SHA256'', pbkdf2_Iterations = 4000, pbkdf2_KeyLen = 32,
                        pbkdf2_SaltLen = 8\<rparr>
       (pbkdf2_Params pbkdf2_GetConfig)
     = (\<lparr>pbkdf2_Hash = ''SHA1'', pbkdf2_Iterations = 2000, pbkdf2_KeyLen = 20,
         pbkdf2_SaltLen = 8\<rparr>, None)
   \<and> pbkdf2_SaltLen pbkdf2_GetConfig = 16
   \<and> pbkdf2_AtLeast \<lparr>pbkdf2_Hash = ''SHA1'', pbkdf2_Iterations = 2000, pbkdf2_KeyLen = 20,
                      pbkdf2_SaltLen = 8\<rparr> (Pbkdf2Ptr (Some pbkdf2_GetConfig)) = Inr False
   \<and> pbkdf2_AtLeast pbkdf2_GetConfig (Pbkdf2Ptr (Some pbkdf2_GetConfig)) = Inr True"
proof -
  have h: "pbkdf2_validate pbkdf2_GetConfig = None"
    by (simp add: pbkdf2_validate_def default_defs)
  show ?thesis
    using h pbkdf2_SetParams_Params [OF h,
        of "\<lparr>pbkdf2_Hash = ''SHA256'', pbkdf2_Iterations = 4000, pbkdf2_KeyLen = 32,
             pbkdf2_SaltLen = 8\<rparr>"]
    by (simp add: default_defs)
qed

section \<open>Strength comparison\<close>

text \<open>
  C2, amended. For two Configs of the same plugin, \<^verbatim>\<open>AtLeast(params, reference)\<close> is true
  exactly when every dimension that the method compares meets or exceeds the reference,
  each on its own: \<^verbatim>\<open>Iterations\<close>, \<^verbatim>\<open>Memory\<close>, \<^verbatim>\<open>Parallelism\<close> and \<^verbatim>\<open>KeyLen\<close> for
  argon2 (its \<^verbatim>\<open>SaltLen\<close> is not compared), \<^verbatim>\<open>Iterations\<close>, \<^verbatim>\<open>KeyLen\<close> and \<^verbatim>\<open>SaltLen\<close>
  for pbkdf2.
\<close>

theorem AtLeast_per_dimension:
  "argon2_AtLeast c (Argon2Ptr (Some r))
     = Inr (argon2_Iterations r \<le> argon2_Iterations c
            \<and> argon2_Memory r \<le> argon2_Memory c
            \<and> argon2_Parallelism r \<le> argon2_Parallelism c
            \<and> sint (argon2_KeyLen r) \<le> sint (argon2_KeyLen c))
   \<and> pbkdf2_AtLeast p (Pbkdf2Ptr (Some q))
     = Inr (sint (pbkdf2_Iterations q) \<le> sint (pbkdf2_Iterations p)
            \<and> sint (pbkdf2_KeyLen q) \<le> sint (pbkdf2_KeyLen p)
            \<and> sint (pbkdf2_SaltLen q) \<le> sint (pbkdf2_SaltLen p))"
  by (simp add: not_less)

text \<open>
  C2 as stated fails for argon2 on \<^verbatim>\<open>SaltLen\<close>: a Config with a shorter salt length than
  the reference, all else equal, is still reported at least as strong.
\<close>

theorem argon2_AtLeast_SaltLen_counterexample:
  "argon2_AtLeast (argon2_GetConfig\<lparr>argon2_SaltLen := 8\<rparr>) (Argon2Ptr (Some argon2_GetConfig))
     = Inr True
   \<and> sint (argon2_SaltLen (argon2_GetConfig\<lparr>argon2_SaltLen := 8\<rparr>))
        < sint (argon2_SaltLen argon2_GetConfig)
   \<and> \<not> argon2_every_dimension_ge (argon2_GetConfig\<lparr>argon2_SaltLen := 8\<rparr>) argon2_GetConfig"
  by (simp add: argon2_every_dimension_ge_def default_defs)

text \<open>
  C3: for two argon2 Configs equal in every field except \<^verbatim>\<open>Iterations\<close>, \<^verbatim>\<open>AtLeast\<close> of a
  stored Config with 8 iterations against a reference with 16 is false, and of a stored
  Config with 16 iterations it is true.
\<close>

theorem AtLeast_upgrade_detection:
  "argon2_AtLeast (r\<lparr>argon2_Iterations := 8\<rparr>) (Argon2Ptr (Some (r\<lparr>argon2_Iterations := 16\<rparr>)))
     = Inr False
   \<and> argon2_AtLeast (r\<lparr>argon2_Iterations := 16\<rparr>) (Argon2Ptr (Some (r\<lparr>argon2_Iterations := 16\<rparr>)))
     = Inr True"
  by simp

text \<open>
  C7: for every Config \<open>c\<close> of either plugin, \<^verbatim>\<open>AtLeast(c, c)\<close> is true.
\<close>

theorem AtLeast_reflexive:
  "argon2_AtLeast c (Argon2Ptr (Some c)) = Inr True
   \<and> pbkdf2_AtLeast p (Pbkdf2Ptr (Some p)) = Inr True"
  by simp

text \<open>
  C8: pbkdf2's \<^verbatim>\<open>AtLeast\<close> does not read \<^verbatim>\<open>Hash\<close>. Changing the hash of either side
  changes nothing, and two Configs that agree on \<^verbatim>\<open>Iterations\<close>, \<^verbatim>\<open>KeyLen\<close> and
  \<^verbatim>\<open>SaltLen\<close> are each at least as strong as the other, whatever their hashes.
\<close>

theorem pbkdf2_AtLeast_ignores_Hash:
  "pbkdf2_AtLeast (a\<lparr>pbkdf2_Hash := h\<rparr>) (Pbkdf2Ptr (Some (b\<lparr>pbkdf2_Hash := h'\<rparr>)))
     = pbkdf2_AtLeast a (Pbkdf2Ptr (Some b))
   \<and> (pbkdf2_Iterations a = pbkdf2_Iterations b \<and> pbkdf2_KeyLen a = pbkdf2_KeyLen b
        \<and> pbkdf2_SaltLen a = pbkdf2_SaltLen b
      \<longrightarrow> pbkdf2_AtLeast a (Pbkdf2Ptr (Some b)) = Inr True
          \<and> pbkdf2_AtLeast b (Pbkdf2Ptr (Some a)) = Inr True)"
  by simp

text \<open>
  The theorem at the default Config and its SHA256 variant: each is at least as strong as
  the other, while \<^verbatim>\<open>Key\<close> hands the derivation a different hash for each.
\<close>

theorem pbkdf2_AtLeast_ignores_Hash_witness:
  "pbkdf2_AtLeast pbkdf2_GetConfig (Pbkdf2Ptr (Some (pbkdf2_GetConfig\<lparr>pbkdf2_Hash := SHA256\<rparr>)))
     = Inr True
   \<and> pbkdf2_AtLeast (pbkdf2_GetConfig\<lparr>pbkdf2_Hash := SHA256\<rparr>) (Pbkdf2Ptr (Some pbkdf2_GetConfig))
     = Inr True
   \<and> pbkdf2_Hash pbkdf2_GetConfig \<noteq> pbkdf2_Hash (pbkdf2_GetConfig\<lparr>pbkdf2_Hash := SHA256\<rparr>)
   \<and> (\<forall>K pw salt. pbkdf2_Key K pbkdf2_GetConfig pw salt = Inr (K pw salt 2000 20 crypto_SHA1))
   \<and> (\<forall>K pw salt. pbkdf2_Key K (pbkdf2_GetConfig\<lparr>pbkdf2_Hash := SHA256\<rparr>) pw salt
        = Inr (K pw salt 2000 20 crypto_SHA256))"
  using pbkdf2_AtLeast_ignores_Hash
    [where a = pbkdf2_GetConfig and b = "pbkdf2_GetConfig\<lparr>pbkdf2_Hash := SHA256\<rparr>"
       and h = SHA1 and h' = SHA256]
  by (simp add: pbkdf2_Key_def default_defs)

text \<open>
  C9: \<^verbatim>\<open>AtLeast\<close> asserts its argument to the plugin's own \<^verbatim>\<open>*Config\<close> without a
  check. Given the other plugin's Config, a value of any other concrete type, or the nil
  interface, it panics; it returns neither false nor an error.
\<close>

theorem AtLeast_foreign_Implementer_panics:
  "argon2_AtLeast c (Pbkdf2Ptr q) = Inl PanicTypeAssertion
   \<and> argon2_AtLeast c (OtherImplementer tn) = Inl PanicTypeAssertion
   \<and> argon2_AtLeast c NilImplementer = Inl PanicTypeAssertion
   \<and> pbkdf2_AtLeast p (Argon2Ptr r) = Inl PanicTypeAssertion
   \<and> pbkdf2_AtLeast p (OtherImplementer tn) = Inl PanicTypeAssertion
   \<and> pbkdf2_AtLeast p NilImplementer = Inl PanicTypeAssertion"
  by simp

section \<open>Validation\<close>

text \<open>
  C4 does not hold of the code. argon2's \<^verbatim>\<open>SetConfig\<close> returns exactly the error of the
  trial key derivation, so never an \<^verbatim>\<open>ErrInvalidParameter\<close> with the name and value of
  a field; pbkdf2's returns an \<^verbatim>\<open>ErrInvalidHash\<close> whose message ends in the offending
  hash name.
\<close>

theorem SetConfig_validation_error_kind:
  "fst (argon2_SetConfig K c reg)
     = (case K ''password'' ''salt'' (argon2_Iterations c) (argon2_Parallelism c) (argon2_Memory c)
               (argon2_KeyLen c) Argon2i of
          Inl msg \<Rightarrow> Some (KeyError msg)
        | Inr b \<Rightarrow> None)
   \<and> fst (argon2_SetConfig K c reg) \<noteq> Some (ErrInvalidParameter name val)
   \<and> fst (pbkdf2_SetConfig (p\<lparr>pbkdf2_Hash := ''MD5''\<rparr>) reg)
     = Some (ErrInvalidHash ''Invalid Hash: MD5'')"
  by (simp add: argon2_SetConfig_def argon2_validate_def argon2_Key_def argon2_register_def
      mcf_Register_def pbkdf2_SetConfig_def pbkdf2_validate_def default_defs split: sum.splits)

text \<open>
  C5: when the text scans without error and the Config so reconstructed fails validation,
  \<^verbatim>\<open>SetParams\<close> returns the validation error, for both plugins.
\<close>

theorem SetParams_validates:
  "(argon2_SetParams_scan c s = (c', None) \<and> argon2_validate K c' = Some e
      \<longrightarrow> argon2_SetParams K c s = (c', Some e))
   \<and> (pbkdf2_SetParams_scan p t = (p', None) \<and> pbkdf2_validate p' = Some e'
      \<longrightarrow> pbkdf2_SetParams p t = (p', Some e'))"
  by (simp add: argon2_SetParams_def pbkdf2_SetParams_def)

text \<open>
  The theorem at two texts that scan: argon2 parameters that the key derivation rejects,
  and pbkdf2 parameters naming the hash MD5, which is not in the table.
\<close>

theorem SetParams_validates_witness:
  "argon2_SetParams (\<lambda>pw salt n par mem keyLen v. Inl ''rejected'') argon2_GetConfig
       ''KeyLen=32,I=0,M=1024,P=4''
     = (\<lparr>argon2_KeyLen = 32, argon2_SaltLen = 16, argon2_Iterations = 0, argon2_Memory = 1024,
         argon2_Parallelism = 4\<rparr>, Some (KeyError ''rejected''))
   \<and> pbkdf2_SetParams pbkdf2_GetConfig ''keylen=20,iterations=2000,hmac=MD5''
     = (\<lparr>pbkdf2_Hash = ''MD5'', pbkdf2_Iterations = 2000, pbkdf2_KeyLen = 20,
         pbkdf2_SaltLen = 16\<rparr>, Some (ErrInvalidHash ''Invalid Hash: MD5''))"
proof -
  have a1: "argon2_SetParams_scan argon2_GetConfig ''KeyLen=32,I=0,M=1024,P=4''
      = (\<lparr>argon2_KeyLen = 32, argon2_SaltLen = 16, argon2_Iterations = 0, argon2_Memory = 1024,
          argon2_Parallelism = 4\<rparr>, None)"
    by (simp add: argon2_SetParams_scan_def argon2_format_def scan_defs default_defs)
  have a2: "argon2_validate (\<lambda>pw salt n par mem keyLen v. Inl ''rejected'')
      \<lparr>argon2_KeyLen = 32, argon2_SaltLen = 16, argon2_Iterations = 0, argon2_Memory = 1024,
          argon2_Parallelism = 4\<rparr> = Some (KeyError ''rejected'')"
    by (simp add: argon2_validate_def argon2_Key_def)
  have p1: "pbkdf2_SetParams_scan pbkdf2_GetConfig ''keylen=20,iterations=2000,hmac=MD5''
      = (\<lparr>pbkdf2_Hash = ''MD5'', pbkdf2_Iterations = 2000, pbkdf2_KeyLen = 20,
          pbkdf2_SaltLen = 16\<rparr>, None)"
    by (simp add: pbkdf2_SetParams_scan_def pbkdf2_format_def scan_defs default_defs)
  have p2: "pbkdf2_validate \<lparr>pbkdf2_Hash = ''MD5'', pbkdf2_Iterations = 2000, pbkdf2_KeyLen = 20,
          pbkdf2_SaltLen = 16\<rparr> = Some (ErrInvalidHash ''Invalid Hash: MD5'')"
    by (simp add: pbkdf2_validate_def default_defs)
  show ?thesis
    using SetParams_validates
      [where c = argon2_GetConfig and s = "''KeyLen=32,I=0,M=1024,P=4''"
         and p = pbkdf2_GetConfig and t = "''keylen=20,iterations=2000,hmac=MD5''"] a1 a2 p1 p2
    by blast
qed

text \<open>
  C6: for a Config that fails validation, \<^verbatim>\<open>SetConfig\<close> returns the validation error as
  its result and leaves the registry as it was.
\<close>

theorem SetConfig_invalid_leaves_registry:
  "(argon2_validate K c = Some e \<longrightarrow> argon2_SetConfig K c reg = (Some e, reg))
   \<and> (pbkdf2_validate p = Some e' \<longrightarrow> pbkdf2_SetConfig p reg = (Some e', reg))"
  by (simp add: argon2_SetConfig_def pbkdf2_SetConfig_def)

text \<open>
  The theorem at an empty registry, for an argon2 Config that the key derivation rejects
  and a pbkdf2 Config with the hash MD5.
\<close>

theorem SetConfig_invalid_leaves_registry_witness:
  "argon2_SetConfig (\<lambda>pw salt n par mem keyLen v. Inl ''rejected'')
       (argon2_GetConfig\<lparr>argon2_Iterations := 0\<rparr>) Map.empty
     = (Some (KeyError ''rejected''), Map.empty)
   \<and> pbkdf2_SetConfig (pbkdf2_GetConfig\<lparr>pbkdf2_Hash := ''MD5''\<rparr>) Map.empty
     = (Some (ErrInvalidHash ''Invalid Hash: MD5''), Map.empty)"
proof -
  have a: "argon2_validate (\<lambda>pw salt n par mem keyLen v. Inl ''rejected'')
      (argon2_GetConfig\<lparr>argon2_Iterations := 0\<rparr>) = Some (KeyError ''rejected'')"
    by (simp add: argon2_validate_def argon2_Key_def)
  have p: "pbkdf2_validate (pbkdf2_GetConfig\<lparr>pbkdf2_Hash := ''MD5''\<rparr>)
      = Some (ErrInvalidHash ''Invalid Hash: MD5'')"
    by (simp add: pbkdf2_validate_def default_defs)
  show ?thesis
    using SetConfig_invalid_leaves_registry
      [where K = "\<lambda>pw salt n par mem keyLen v. Inl ''rejected''"
         and c = "argon2_GetConfig\<lparr>argon2_Iterations := 0\<rparr>"
         and p = "pbkdf2_GetConfig\<lparr>pbkdf2_Hash := ''MD5''\<rparr>" and reg = Map.empty] a p
    by blast
qed

section \<open>Frame of SetParams\<close>

text \<open>
  C10: a call of argon2's \<^verbatim>\<open>SetParams\<close>, successful or not, leaves \<^verbatim>\<open>SaltLen\<close> at its
  prior value; the Config after the call differs from the one before at most in
  \<^verbatim>\<open>KeyLen\<close>, \<^verbatim>\<open>Iterations\<close>, \<^verbatim>\<open>Memory\<close> and \<^verbatim>\<open>Parallelism\<close>.
\<close>

theorem argon2_SetParams_frame:
  "argon2_SetParams K c s = (c', err) \<Longrightarrow>
     argon2_SaltLen c' = argon2_SaltLen c
     \<and> c' = c\<lparr>argon2_KeyLen := argon2_KeyLen c', argon2_Iterations := argon2_Iterations c',
              argon2_Memory := argon2_Memory c', argon2_Parallelism := argon2_Parallelism c'\<rparr>"
  using argon2_scan_SaltLen [of c s] argon2_SetParams_fst [of K c s] by simp

text \<open>
  The theorem at a successful call on the default Config.
\<close>

theorem argon2_SetParams_frame_witness:
  "argon2_SetParams (\<lambda>pw salt n par mem keyLen v. Inr []) argon2_GetConfig ''KeyLen=64,I=9,M=4096,P=1''
     = (\<lparr>argon2_KeyLen = 64, argon2_SaltLen = 16, argon2_Iterations = 9, argon2_Memory = 4096,
         argon2_Parallelism = 1\<rparr>, None)
   \<and> argon2_SaltLen argon2_GetConfig = 16"
proof -
  have h: "argon2_SetParams (\<lambda>pw salt n par mem keyLen v. Inr []) argon2_GetConfig ''KeyLen=64,I=9,M=4096,P=1''
     = (\<lparr>argon2_KeyLen = 64, argon2_SaltLen = 16, argon2_Iterations = 9, argon2_Memory = 4096,
         argon2_Parallelism = 1\<rparr>, None)"
    by (simp add: argon2_SetParams_def argon2_SetParams_scan_def argon2_format_def scan_defs
        default_defs argon2_validate_def argon2_Key_def)
  show ?thesis
    using argon2_SetParams_frame [OF h] h by (simp add: default_defs)
qed

end
